theory Spec2Isabelle
  imports Complex_Main
begin

section \<open>The ratio-scouting engine of \<^verbatim>\<open>binance_trade_bot/auto_trader.py\<close>\<close>

text \<open>
  A shallow embedding of class \<^verbatim>\<open>AutoTrader\<close>. Python floats are read as
  real numbers: rounding, overflow and underflow of IEEE doubles are not part of the
  model. What Python raises is part of it: dividing by \<open>0.0\<close> raises
  \<^verbatim>\<open>ZeroDivisionError\<close> and subtracting \<^verbatim>\<open>None\<close> from a float raises
  \<^verbatim>\<open>TypeError\<close>. Calls of \<^verbatim>\<open>self.logger\<close> and of \<^verbatim>\<open>self.db.log_scout\<close> only
  write to logs that no function of the class reads; they are left out.
\<close>

subsection \<open>Data model\<close>

datatype error = TypeError | ZeroDivisionError

text \<open>\<^verbatim>\<open>models.Coin\<close>: the attributes the class reads.\<close>

record coin =
  symbol :: string
  enabled :: bool

text \<open>\<^verbatim>\<open>models.Pair\<close>: a row of the Ratio Store; \<open>ratio = None\<close> is the unset ratio.\<close>

record pair =
  from_coin :: coin
  to_coin :: coin
  ratio :: "real option"

text \<open>The order dictionary returned by a successful buy; only \<^verbatim>\<open>result["price"]\<close> is read.\<close>

record order =
  price :: real

record config =
  BRIDGE :: coin
  SCOUT_TRANSACTION_FEE :: real
  SCOUT_MULTIPLIER :: real

text \<open>A price snapshot (\<^verbatim>\<open>all_tickers\<close>): ticker symbols with their prices.\<close>

type_synonym tickers = "(string \<times> real) list"

text \<open>
  \<^verbatim>\<open>BinanceAPIManager\<close> is an external collaborator. Its methods are parameters of the
  model, acting on a venue state \<open>'x\<close> of any type: fetching a snapshot and placing an
  order may change the venue, reading a balance or a minimum notional does not.
  A failed order is \<^verbatim>\<open>None\<close>.
\<close>

record 'x manager =
  get_all_market_tickers :: "'x \<Rightarrow> tickers \<times> 'x"
  get_currency_balance :: "'x \<Rightarrow> string \<Rightarrow> real"
  get_min_notional :: "'x \<Rightarrow> string \<Rightarrow> string \<Rightarrow> real"
  sell_alt :: "'x \<Rightarrow> coin \<Rightarrow> coin \<Rightarrow> order option \<times> 'x"
  buy_alt :: "'x \<Rightarrow> coin \<Rightarrow> coin \<Rightarrow> tickers \<Rightarrow> order option \<times> 'x"

text \<open>The calls that reach the venue, recorded in the order in which they are made.\<close>

datatype call = Fetch | Sell string | Buy string

text \<open>
  What the methods act on: the rows of the Pair table, the tracked coins
  (\<^verbatim>\<open>self.db.get_coins()\<close>), the venue, and the record of the calls made so far.
\<close>

record 'x world =
  pairs :: "pair list"
  coins :: "coin list"
  exch :: 'x
  calls :: "call list"

text \<open>How a \<^verbatim>\<open>for\<close> loop with a \<^verbatim>\<open>return\<close> in its body was left.\<close>

datatype loop_exit = Fell_through | Returned

subsection \<open>Helpers that are not among the sources\<close>

text \<open>
  Modelled from the spec: \<^verbatim>\<open>Coin.__add__\<close> (module \<^verbatim>\<open>models\<close>) is missing. A snapshot
  is keyed by an asset and the bridge asset; \<^verbatim>\<open>coin + self.config.BRIDGE\<close> is the
  ticker symbol of the two, the asset's symbol followed by the bridge's.
\<close>

definition coin_add :: "coin \<Rightarrow> coin \<Rightarrow> string" where
  "coin_add c b = symbol c @ symbol b"

text \<open>
  Modelled from the spec: \<^verbatim>\<open>utils.get_market_ticker_price_from_list\<close> is missing. It
  looks a ticker symbol up in the snapshot and gives \<^verbatim>\<open>None\<close> when the symbol is absent.
\<close>

definition get_market_ticker_price_from_list :: "tickers \<Rightarrow> string \<Rightarrow> real option" where
  "get_market_ticker_price_from_list all_tickers ticker_symbol = map_of all_tickers ticker_symbol"

text \<open>
  Modelled from the spec: \<^verbatim>\<open>Database.get_pairs_from\<close> is missing. It gives every Pair
  with \<open>from == asset\<close>, assets being equal when their symbols are.
\<close>

definition get_pairs_from :: "pair list \<Rightarrow> coin \<Rightarrow> pair list" where
  "get_pairs_from ps c = filter (\<lambda>p. symbol (from_coin p) = symbol c) ps"

text \<open>Modelled from the spec: \<^verbatim>\<open>Database.get_coins\<close> is missing. It gives the tracked assets.\<close>

definition get_coins :: "'x world \<Rightarrow> coin list" where
  "get_coins w = coins w"

text \<open>Python's \<^verbatim>\<open>/\<close> on floats.\<close>

definition truediv :: "real \<Rightarrow> real \<Rightarrow> error + real" where
  "truediv a b = (if b = 0 then Inl ZeroDivisionError else Inr (a / b))"

text \<open>Python's \<^verbatim>\<open>max(d, key=d.get)\<close> on a non-empty dictionary: the first key of the largest value.\<close>

fun max_from :: "'k \<times> real \<Rightarrow> ('k \<times> real) list \<Rightarrow> 'k" where
  "max_from best [] = fst best"
| "max_from best (kv # rest) = max_from (if snd best < snd kv then kv else best) rest"

subsection \<open>\<^verbatim>\<open>update_trade_threshold\<close>\<close>

text \<open>
  The loop over \<^verbatim>\<open>session.query(Pair).filter(Pair.to_coin == current_coin)\<close>, as a walk
  over the table that passes the rows the filter rejects.
\<close>

fun update_rows :: "config \<Rightarrow> coin \<Rightarrow> real \<Rightarrow> tickers \<Rightarrow> pair list \<Rightarrow> error + pair list" where
  "update_rows cfg current_coin current_coin_price all_tickers [] = Inr []"
| "update_rows cfg current_coin current_coin_price all_tickers (p # rest) =
     (if symbol (to_coin p) \<noteq> symbol current_coin
      then map_sum id ((#) p) (update_rows cfg current_coin current_coin_price all_tickers rest)
      else
        (case get_market_ticker_price_from_list all_tickers (coin_add (from_coin p) (BRIDGE cfg)) of
           None \<Rightarrow> map_sum id ((#) p) (update_rows cfg current_coin current_coin_price all_tickers rest)
         | Some from_coin_price \<Rightarrow>
             (case truediv from_coin_price current_coin_price of
                Inl e \<Rightarrow> Inl e
              | Inr r \<Rightarrow>
                  map_sum id ((#) (p\<lparr>ratio := Some r\<rparr>))
                    (update_rows cfg current_coin current_coin_price all_tickers rest))))"

definition update_trade_threshold ::
  "config \<Rightarrow> coin \<Rightarrow> real option \<Rightarrow> tickers \<Rightarrow> pair list \<Rightarrow> error + pair list" where
  "update_trade_threshold cfg current_coin current_coin_price all_tickers ps =
     (case current_coin_price of
        None \<Rightarrow> Inr ps
      | Some c \<Rightarrow> update_rows cfg current_coin c all_tickers ps)"

subsection \<open>\<^verbatim>\<open>transaction_through_bridge\<close>\<close>

text \<open>
  The rows written inside \<^verbatim>\<open>with self.db.db_session()\<close> are committed when the block
  is left; an exception leaves it without a commit, so the table keeps its rows.
\<close>

definition transaction_through_bridge ::
  "'x manager \<Rightarrow> config \<Rightarrow> pair \<Rightarrow> tickers \<Rightarrow> 'x world \<Rightarrow> 'x world \<times> (error + bool)" where
  "transaction_through_bridge M cfg p all_tickers w =
     (case sell_alt M (exch w) (from_coin p) (BRIDGE cfg) of
        (None, x1) \<Rightarrow>
          (w\<lparr>exch := x1, calls := calls w @ [Sell (symbol (from_coin p))]\<rparr>, Inr False)
      | (Some sold, x1) \<Rightarrow>
          (case buy_alt M x1 (to_coin p) (BRIDGE cfg) all_tickers of
             (Some result, x2) \<Rightarrow>
               (let w2 = w\<lparr>exch := x2,
                           calls := calls w @ [Sell (symbol (from_coin p)), Buy (symbol (to_coin p))]\<rparr>
                in case update_trade_threshold cfg (to_coin p) (Some (price result)) all_tickers (pairs w2) of
                     Inl e \<Rightarrow> (w2, Inl e)
                   | Inr ps \<Rightarrow> (w2\<lparr>pairs := ps\<rparr>, Inr True))
           | (None, x2) \<Rightarrow>
               (w\<lparr>exch := x2,
                  calls := calls w @ [Sell (symbol (from_coin p)), Buy (symbol (to_coin p))]\<rparr>,
                Inr False)))"

subsection \<open>\<^verbatim>\<open>initialize_trade_thresholds\<close>\<close>

text \<open>The loop over \<^verbatim>\<open>session.query(Pair).filter(Pair.ratio.is_(None)).all()\<close>.\<close>

fun initialize_rows :: "config \<Rightarrow> tickers \<Rightarrow> pair list \<Rightarrow> error + pair list" where
  "initialize_rows cfg all_tickers [] = Inr []"
| "initialize_rows cfg all_tickers (p # rest) =
     (if ratio p \<noteq> None then map_sum id ((#) p) (initialize_rows cfg all_tickers rest)
      else if \<not> enabled (from_coin p) \<or> \<not> enabled (to_coin p)
      then map_sum id ((#) p) (initialize_rows cfg all_tickers rest)
      else
        (case get_market_ticker_price_from_list all_tickers (coin_add (from_coin p) (BRIDGE cfg)) of
           None \<Rightarrow> map_sum id ((#) p) (initialize_rows cfg all_tickers rest)
         | Some from_coin_price \<Rightarrow>
             (case get_market_ticker_price_from_list all_tickers (coin_add (to_coin p) (BRIDGE cfg)) of
                None \<Rightarrow> map_sum id ((#) p) (initialize_rows cfg all_tickers rest)
              | Some to_coin_price \<Rightarrow>
                  (case truediv from_coin_price to_coin_price of
                     Inl e \<Rightarrow> Inl e
                   | Inr r \<Rightarrow>
                       map_sum id ((#) (p\<lparr>ratio := Some r\<rparr>))
                         (initialize_rows cfg all_tickers rest)))))"

definition initialize_trade_thresholds ::
  "'x manager \<Rightarrow> config \<Rightarrow> 'x world \<Rightarrow> 'x world \<times> (error + unit)" where
  "initialize_trade_thresholds M cfg w =
     (case get_all_market_tickers M (exch w) of
        (all_tickers, x1) \<Rightarrow>
          (let w1 = w\<lparr>exch := x1, calls := calls w @ [Fetch]\<rparr>
           in case initialize_rows cfg all_tickers (pairs w1) of
                Inl e \<Rightarrow> (w1, Inl e)
              | Inr ps \<Rightarrow> (w1\<lparr>pairs := ps\<rparr>, Inr ())))"

subsection \<open>\<^verbatim>\<open>_get_ratios\<close>\<close>

text \<open>
  \<^verbatim>\<open>ratio_dict\<close> is keyed by the row objects, one entry per row the loop reaches, in
  the order of insertion: a list of entries.
\<close>

fun ratio_rows :: "config \<Rightarrow> real \<Rightarrow> tickers \<Rightarrow> pair list \<Rightarrow> error + (pair \<times> real) list" where
  "ratio_rows cfg coin_price all_tickers [] = Inr []"
| "ratio_rows cfg coin_price all_tickers (p # rest) =
     (case get_market_ticker_price_from_list all_tickers (coin_add (to_coin p) (BRIDGE cfg)) of
        None \<Rightarrow> ratio_rows cfg coin_price all_tickers rest
      | Some optional_coin_price \<Rightarrow>
          (case truediv coin_price optional_coin_price of
             Inl e \<Rightarrow> Inl e
           | Inr coin_opt_coin_ratio \<Rightarrow>
               (case ratio p of
                  None \<Rightarrow> Inl TypeError
                | Some r \<Rightarrow>
                    map_sum id
                      ((#) (p, (coin_opt_coin_ratio
                                 - SCOUT_TRANSACTION_FEE cfg * SCOUT_MULTIPLIER cfg * coin_opt_coin_ratio)
                               - r))
                      (ratio_rows cfg coin_price all_tickers rest))))"

definition get_ratios ::
  "config \<Rightarrow> coin \<Rightarrow> real \<Rightarrow> tickers \<Rightarrow> pair list \<Rightarrow> error + (pair \<times> real) list" where
  "get_ratios cfg c coin_price all_tickers ps =
     ratio_rows cfg coin_price all_tickers (get_pairs_from ps c)"

subsection \<open>\<^verbatim>\<open>bridge_scout\<close>\<close>

fun bridge_loop ::
  "'x manager \<Rightarrow> config \<Rightarrow> real \<Rightarrow> tickers \<Rightarrow> coin list \<Rightarrow> 'x world \<Rightarrow> 'x world \<times> (error + unit)" where
  "bridge_loop M cfg bridge_balance all_tickers [] w = (w, Inr ())"
| "bridge_loop M cfg bridge_balance all_tickers (c # rest) w =
     (case get_market_ticker_price_from_list all_tickers (coin_add c (BRIDGE cfg)) of
        None \<Rightarrow> (w, Inr ())
      | Some current_coin_price \<Rightarrow>
          (case get_ratios cfg c current_coin_price all_tickers (pairs w) of
             Inl e \<Rightarrow> (w, Inl e)
           | Inr ratio_dict \<Rightarrow>
               if \<not> list_ex (\<lambda>v. 0 < v) (map snd ratio_dict)
               then
                 (if get_min_notional M (exch w) (symbol c) (symbol (BRIDGE cfg)) < bridge_balance
                  then
                    (case buy_alt M (exch w) c (BRIDGE cfg) all_tickers of
                       (bought, x1) \<Rightarrow> (w\<lparr>exch := x1, calls := calls w @ [Buy (symbol c)]\<rparr>, Inr ()))
                  else (w, Inr ()))
               else bridge_loop M cfg bridge_balance all_tickers rest w))"

definition bridge_scout :: "'x manager \<Rightarrow> config \<Rightarrow> 'x world \<Rightarrow> 'x world \<times> (error + unit)" where
  "bridge_scout M cfg w =
     (let bridge_balance = get_currency_balance M (exch w) (symbol (BRIDGE cfg))
      in case get_all_market_tickers M (exch w) of
           (all_tickers, x1) \<Rightarrow>
             (let w1 = w\<lparr>exch := x1, calls := calls w @ [Fetch]\<rparr>
              in bridge_loop M cfg bridge_balance all_tickers (get_coins w1) w1))"

subsection \<open>\<^verbatim>\<open>scout\<close>\<close>

fun scout_loop ::
  "'x manager \<Rightarrow> config \<Rightarrow> tickers \<Rightarrow> coin list \<Rightarrow> 'x world \<Rightarrow> 'x world \<times> (error + loop_exit)" where
  "scout_loop M cfg all_tickers [] w = (w, Inr Fell_through)"
| "scout_loop M cfg all_tickers (c # rest) w =
     (let current_coin_balance = get_currency_balance M (exch w) (symbol c)
      in case get_market_ticker_price_from_list all_tickers (coin_add c (BRIDGE cfg)) of
           None \<Rightarrow> (w, Inr Returned)
         | Some coin_price \<Rightarrow>
             if coin_price * current_coin_balance
                  < get_min_notional M (exch w) (symbol c) (symbol (BRIDGE cfg))
             then scout_loop M cfg all_tickers rest w
             else
               (case get_ratios cfg c coin_price all_tickers (pairs w) of
                  Inl e \<Rightarrow> (w, Inl e)
                | Inr ratio_dict \<Rightarrow>
                    (case filter (\<lambda>kv. 0 < snd kv) ratio_dict of
                       [] \<Rightarrow> scout_loop M cfg all_tickers rest w
                     | kv # kvs \<Rightarrow>
                         (case transaction_through_bridge M cfg (max_from kv kvs) all_tickers w of
                            (w1, Inl e) \<Rightarrow> (w1, Inl e)
                          | (w1, Inr done) \<Rightarrow> scout_loop M cfg all_tickers rest w1))))"

definition scout :: "'x manager \<Rightarrow> config \<Rightarrow> 'x world \<Rightarrow> 'x world \<times> (error + unit)" where
  "scout M cfg w =
     (case get_all_market_tickers M (exch w) of
        (all_tickers, x1) \<Rightarrow>
          (let w1 = w\<lparr>exch := x1, calls := calls w @ [Fetch]\<rparr>
           in case scout_loop M cfg all_tickers (get_coins w1) w1 of
                (w2, Inl e) \<Rightarrow> (w2, Inl e)
              | (w2, Inr Returned) \<Rightarrow> (w2, Inr ())
              | (w2, Inr Fell_through) \<Rightarrow> bridge_scout M cfg w2))"

subsection \<open>What one iteration does to a row\<close>

text \<open>
  The row that one iteration of the loop of \<^verbatim>\<open>update_trade_threshold\<close> leaves behind when
  the fill price is not zero, and the row that one iteration of the loop of
  \<^verbatim>\<open>initialize_trade_thresholds\<close> leaves behind when no price is zero. They are used to
  describe the loops, and are shown below to agree with them.
\<close>

definition recalibrated :: "config \<Rightarrow> coin \<Rightarrow> real \<Rightarrow> tickers \<Rightarrow> pair \<Rightarrow> pair" where
  "recalibrated cfg b f t p =
     (if symbol (to_coin p) = symbol b
      then (case get_market_ticker_price_from_list t (coin_add (from_coin p) (BRIDGE cfg)) of
              None \<Rightarrow> p
            | Some fp \<Rightarrow> p\<lparr>ratio := Some (fp / f)\<rparr>)
      else p)"

definition initialized :: "config \<Rightarrow> tickers \<Rightarrow> pair \<Rightarrow> pair" where
  "initialized cfg t p =
     (if ratio p = None \<and> enabled (from_coin p) \<and> enabled (to_coin p)
      then (case (get_market_ticker_price_from_list t (coin_add (from_coin p) (BRIDGE cfg)),
                  get_market_ticker_price_from_list t (coin_add (to_coin p) (BRIDGE cfg))) of
              (Some fp, Some tp) \<Rightarrow> p\<lparr>ratio := Some (fp / tp)\<rparr>
            | _ \<Rightarrow> p)
      else p)"

subsection \<open>The invariant of the Ratio Store\<close>




text \<open>
  Modelled from the spec: the driver that calls the trader is missing. The initializer runs
  before scouting and may be called again, a scout pass is triggered from outside, and an
  error ends the call but not the process: a run is a sequence of such calls, each one
  starting from what the one before it left.
\<close>

datatype step = Initialize | Scout

fun run_step :: "'x manager \<Rightarrow> config \<Rightarrow> 'x world \<Rightarrow> step \<Rightarrow> 'x world" where
  "run_step M cfg w Initialize = fst (initialize_trade_thresholds M cfg w)"
| "run_step M cfg w Scout = fst (scout M cfg w)"

definition run :: "'x manager \<Rightarrow> config \<Rightarrow> step list \<Rightarrow> 'x world \<Rightarrow> 'x world" where
  "run M cfg steps w = foldl (run_step M cfg) w steps"

subsection \<open>Concrete inputs\<close>

text \<open>Three assets traded against USDT, with a fee of 0.001 and a multiplier of 1.\<close>

definition ex_bridge :: coin where "ex_bridge = \<lparr>symbol = ''USDT'', enabled = True\<rparr>"
definition ex_A :: coin where "ex_A = \<lparr>symbol = ''A'', enabled = True\<rparr>"
definition ex_B :: coin where "ex_B = \<lparr>symbol = ''B'', enabled = True\<rparr>"
definition ex_C :: coin where "ex_C = \<lparr>symbol = ''C'', enabled = True\<rparr>"
definition ex_cfg :: config where
  "ex_cfg = \<lparr>BRIDGE = ex_bridge, SCOUT_TRANSACTION_FEE = 0.001, SCOUT_MULTIPLIER = 1\<rparr>"

text \<open>
  A snapshot that prices A and B but not C, one in which B has risen and one in which B has
  fallen, and two feeds that change after the first fetch.
\<close>

definition ex_tickers :: tickers where "ex_tickers = [(''AUSDT'', 10), (''BUSDT'', 5)]"

text \<open>Rows of the Pair table.\<close>

definition ex_AB :: pair where "ex_AB = \<lparr>from_coin = ex_A, to_coin = ex_B, ratio = Some 1.5\<rparr>"
definition ex_AC :: pair where "ex_AC = \<lparr>from_coin = ex_A, to_coin = ex_C, ratio = Some 2\<rparr>"
definition ex_BA :: pair where "ex_BA = \<lparr>from_coin = ex_B, to_coin = ex_A, ratio = Some 0.4\<rparr>"
definition ex_BA_high :: pair where "ex_BA_high = \<lparr>from_coin = ex_B, to_coin = ex_A, ratio = Some 0.6\<rparr>"
definition ex_CB :: pair where "ex_CB = \<lparr>from_coin = ex_C, to_coin = ex_B, ratio = Some 3\<rparr>"

text \<open>
  A table with unset ratios: a priced pair, a pair whose counterpart has no price, a pair
  that is set, and a pair with a disabled endpoint.
\<close>

definition ex_unset :: "pair list" where
  "ex_unset = [\<lparr>from_coin = ex_A, to_coin = ex_B, ratio = None\<rparr>,
               \<lparr>from_coin = ex_A, to_coin = ex_C, ratio = None\<rparr>,
               \<lparr>from_coin = ex_B, to_coin = ex_A, ratio = Some 7\<rparr>,
               \<lparr>from_coin = ex_B, to_coin = ex_A\<lparr>enabled := False\<rparr>, ratio = None\<rparr>]"

text \<open>
  Balances: one amount for the bridge and another for every other asset, or an amount for
  one asset and nothing for the others.
\<close>

definition ex_bal :: "real \<Rightarrow> real \<Rightarrow> string \<Rightarrow> real" where
  "ex_bal bridge_amount alt_amount s = (if s = ''USDT'' then bridge_amount else alt_amount)"
definition ex_bal_only :: "string \<Rightarrow> real \<Rightarrow> string \<Rightarrow> real" where
  "ex_bal_only a amount s = (if s = a then amount else 0)"

text \<open>
  A venue whose answers are scripted. Its state counts the fetches: \<open>feed n\<close> is the
  snapshot that the fetch in state \<open>n\<close> gives. Every minimum notional is 10, a sell
  succeeds or fails as \<open>sell_ok\<close> says, and a buy fills at the price \<open>fill\<close> or fails.
\<close>

definition ex_manager :: "(nat \<Rightarrow> tickers) \<Rightarrow> (string \<Rightarrow> real) \<Rightarrow> bool \<Rightarrow> real option \<Rightarrow> nat manager" where
  "ex_manager feed bal sell_ok fill =
     \<lparr>get_all_market_tickers = (\<lambda>n. (feed n, Suc n)),
      get_currency_balance = (\<lambda>n s. bal s),
      get_min_notional = (\<lambda>n s b. 10),
      sell_alt = (\<lambda>n c b. (if sell_ok then Some \<lparr>price = 1\<rparr> else None, n)),
      buy_alt = (\<lambda>n c b t. (map_option (\<lambda>f. \<lparr>price = f\<rparr>) fill, n))\<rparr>"

text \<open>A world with a given table and given tracked coins, before any call.\<close>

definition ex_world :: "pair list \<Rightarrow> coin list \<Rightarrow> nat world" where
  "ex_world ps cs = \<lparr>pairs = ps, coins = cs, exch = 0, calls = []\<rparr>"

section \<open>Properties\<close>

subsection \<open>Auxiliary facts\<close>

lemmas ex_defs = ex_bridge_def ex_A_def ex_B_def ex_C_def ex_cfg_def ex_tickers_def ex_AB_def
  ex_manager_def ex_world_def

lemmas ex_eval = get_ratios_def get_pairs_from_def get_market_ticker_price_from_list_def coin_add_def
  truediv_def get_coins_def

lemma map_sum_id_eq_Inr: "(map_sum id f x = Inr d) = (\<exists>d'. x = Inr d' \<and> d = f d')"
  by (cases x) auto

lemma update_rows_map:
  "f \<noteq> 0 \<Longrightarrow> update_rows cfg b f t ps = Inr (map (recalibrated cfg b f t) ps)"
  by (induction ps) (auto simp: recalibrated_def truediv_def split: option.splits)

lemma update_trade_threshold_map:
  "f \<noteq> 0 \<Longrightarrow> update_trade_threshold cfg b (Some f) t ps = Inr (map (recalibrated cfg b f t) ps)"
  by (simp add: update_trade_threshold_def update_rows_map)

lemma initialize_rows_map:
  "\<forall>s. get_market_ticker_price_from_list t s \<noteq> Some 0 \<Longrightarrow>
   initialize_rows cfg t ps = Inr (map (initialized cfg t) ps)"
proof (induction ps)
  case Nil
  show ?case by simp
next
  case (Cons p ps)
  then have IH: "initialize_rows cfg t ps = Inr (map (initialized cfg t) ps)" by simp
  have nz: "\<And>s v. get_market_ticker_price_from_list t s = Some v \<Longrightarrow> v \<noteq> 0"
    using Cons.prems by auto
  show ?case
    using IH nz by (auto simp: initialized_def truediv_def split: option.splits)
qed

lemma initialize_rows_again:
  "initialize_rows cfg t (map (initialized cfg t) ps) = Inr (map (initialized cfg t) ps)"
proof (induction ps)
  case Nil
  show ?case by simp
next
  case (Cons p ps)
  show ?case
  proof (cases "ratio p = None \<and> enabled (from_coin p) \<and> enabled (to_coin p)")
    case False
    then show ?thesis using Cons.IH by (auto simp: initialized_def)
  next
    case True
    then show ?thesis using Cons.IH
      by (auto simp: initialized_def truediv_def split: option.splits)
  qed
qed

lemma ratio_rows_entry:
  "ratio_rows cfg cp t ps = Inr d \<Longrightarrow> (p, v) \<in> set d \<Longrightarrow>
   p \<in> set ps \<and> (\<exists>q r. get_market_ticker_price_from_list t (coin_add (to_coin p) (BRIDGE cfg)) = Some q
      \<and> q \<noteq> 0 \<and> ratio p = Some r
      \<and> v = (cp / q - SCOUT_TRANSACTION_FEE cfg * SCOUT_MULTIPLIER cfg * (cp / q)) - r)"
proof (induction ps arbitrary: d)
  case Nil
  then show ?case by simp
next
  case (Cons a ps)
  then show ?case
    by (auto simp: truediv_def map_sum_id_eq_Inr split: option.splits if_splits sum.splits)
qed

lemma ratio_rows_returns:
  "(\<forall>p \<in> set ps. \<forall>q. get_market_ticker_price_from_list t (coin_add (to_coin p) (BRIDGE cfg)) = Some q
      \<longrightarrow> q \<noteq> 0 \<and> ratio p \<noteq> None) \<Longrightarrow>
   \<exists>d. ratio_rows cfg cp t ps = Inr d \<and>
     (\<forall>p \<in> set ps. \<forall>q r. get_market_ticker_price_from_list t (coin_add (to_coin p) (BRIDGE cfg)) = Some q
        \<longrightarrow> ratio p = Some r
        \<longrightarrow> (p, (cp / q - SCOUT_TRANSACTION_FEE cfg * SCOUT_MULTIPLIER cfg * (cp / q)) - r) \<in> set d)"
proof (induction ps)
  case Nil
  then show ?case by simp
next
  case (Cons a ps)
  then obtain d where d: "ratio_rows cfg cp t ps = Inr d" 
    "(\<forall>p \<in> set ps. \<forall>q r. get_market_ticker_price_from_list t (coin_add (to_coin p) (BRIDGE cfg)) = Some q
        \<longrightarrow> ratio p = Some r
        \<longrightarrow> (p, (cp / q - SCOUT_TRANSACTION_FEE cfg * SCOUT_MULTIPLIER cfg * (cp / q)) - r) \<in> set d)"
    by auto
  show ?case
  proof (cases "get_market_ticker_price_from_list t (coin_add (to_coin a) (BRIDGE cfg))")
    case None
    then show ?thesis using d by auto
  next
    case (Some q)
    with Cons.prems obtain r where "q \<noteq> 0" "ratio a = Some r" by auto
    then show ?thesis using d Some by (auto simp: truediv_def)
  qed
qed

lemma ratio_rows_complete:
  "ratio_rows cfg cp t ps = Inr d \<Longrightarrow> p \<in> set ps \<Longrightarrow>
   get_market_ticker_price_from_list t (coin_add (to_coin p) (BRIDGE cfg)) = Some q \<Longrightarrow>
   q \<noteq> 0 \<and> (\<exists>r. ratio p = Some r
      \<and> (p, (cp / q - SCOUT_TRANSACTION_FEE cfg * SCOUT_MULTIPLIER cfg * (cp / q)) - r) \<in> set d)"
proof (induction ps arbitrary: d)
  case Nil
  then show ?case by simp
next
  case (Cons a ps)
  then show ?case
    by (auto simp: truediv_def map_sum_id_eq_Inr split: option.splits if_splits sum.splits)
qed

lemma update_rows_Inr:
  "update_rows cfg b f t ps = Inr ps' \<Longrightarrow> ps' = map (recalibrated cfg b f t) ps"
proof (induction ps arbitrary: ps')
  case Nil
  then show ?case by simp
next
  case (Cons a ps)
  then show ?case
    by (auto simp: recalibrated_def truediv_def map_sum_id_eq_Inr split: option.splits if_splits sum.splits)
qed

lemma initialize_rows_Inr:
  "initialize_rows cfg t ps = Inr ps' \<Longrightarrow> ps' = map (initialized cfg t) ps"
proof (induction ps arbitrary: ps')
  case Nil
  then show ?case by simp
next
  case (Cons a ps)
  then show ?case
    by (auto simp: initialized_def truediv_def map_sum_id_eq_Inr split: option.splits if_splits sum.splits)
qed

subsection \<open>The Ratio Engine\<close>

text \<open>
  Claim C1. Whenever \<^verbatim>\<open>_get_ratios\<close> returns for an asset of price \<open>p\<close>, every pair of
  the asset whose counterpart price \<open>q\<close> is in the snapshot has a stored ratio \<open>r\<close> and
  the score \<open>p / q - fee * multiplier * (p / q) - r\<close>, and every entry of the result is
  such a score. It returns when no counterpart price is zero and no stored ratio is unset
  among the priced pairs of the asset. With \<open>p = 10\<close>, \<open>q = 5\<close>, \<open>r = 1.5\<close>,
  \<open>fee = 0.001\<close> and \<open>multiplier = 1\<close> the score is \<open>0.498\<close>.
\<close>

theorem get_ratios_score:
  "(\<forall>d. get_ratios cfg c cp t ps = Inr d \<longrightarrow>
       (\<forall>p \<in> set (get_pairs_from ps c). \<forall>q.
          get_market_ticker_price_from_list t (coin_add (to_coin p) (BRIDGE cfg)) = Some q \<longrightarrow>
          (\<exists>r. ratio p = Some r
             \<and> (p, (cp / q) - SCOUT_TRANSACTION_FEE cfg * SCOUT_MULTIPLIER cfg * (cp / q) - r) \<in> set d))
     \<and> (\<forall>(p, v) \<in> set d. \<exists>q r.
          get_market_ticker_price_from_list t (coin_add (to_coin p) (BRIDGE cfg)) = Some q
        \<and> ratio p = Some r
        \<and> v = (cp / q) - SCOUT_TRANSACTION_FEE cfg * SCOUT_MULTIPLIER cfg * (cp / q) - r))
   \<and> ((\<forall>p \<in> set (get_pairs_from ps c). \<forall>q.
          get_market_ticker_price_from_list t (coin_add (to_coin p) (BRIDGE cfg)) = Some q
          \<longrightarrow> q \<noteq> 0 \<and> ratio p \<noteq> None)
        \<longrightarrow> (\<exists>d. get_ratios cfg c cp t ps = Inr d))"
proof (intro conjI allI impI)
  fix d
  assume d: "get_ratios cfg c cp t ps = Inr d"
  then have rows: "ratio_rows cfg cp t (get_pairs_from ps c) = Inr d"
    by (simp add: get_ratios_def)
  show "\<forall>p \<in> set (get_pairs_from ps c). \<forall>q.
          get_market_ticker_price_from_list t (coin_add (to_coin p) (BRIDGE cfg)) = Some q \<longrightarrow>
          (\<exists>r. ratio p = Some r
             \<and> (p, (cp / q) - SCOUT_TRANSACTION_FEE cfg * SCOUT_MULTIPLIER cfg * (cp / q) - r) \<in> set d)"
    using ratio_rows_complete [OF rows] by blast
  show "\<forall>(p, v) \<in> set d. \<exists>q r.
          get_market_ticker_price_from_list t (coin_add (to_coin p) (BRIDGE cfg)) = Some q
        \<and> ratio p = Some r
        \<and> v = (cp / q) - SCOUT_TRANSACTION_FEE cfg * SCOUT_MULTIPLIER cfg * (cp / q) - r"
    using ratio_rows_entry [OF rows] by blast
next
  assume "\<forall>p \<in> set (get_pairs_from ps c). \<forall>q.
          get_market_ticker_price_from_list t (coin_add (to_coin p) (BRIDGE cfg)) = Some q
          \<longrightarrow> q \<noteq> 0 \<and> ratio p \<noteq> None"
  from ratio_rows_returns [OF this, of cp] show "\<exists>d. get_ratios cfg c cp t ps = Inr d"
    unfolding get_ratios_def by blast
qed

theorem get_ratios_score_witness:
  "\<exists>d. get_ratios ex_cfg ex_A 10 ex_tickers [ex_AB] = Inr d \<and> (ex_AB, 0.498) \<in> set d"
proof -
  note score = get_ratios_score [of ex_cfg ex_A 10 ex_tickers "[ex_AB]"]
  have h: "\<forall>p \<in> set (get_pairs_from [ex_AB] ex_A). \<forall>q.
             get_market_ticker_price_from_list ex_tickers (coin_add (to_coin p) (BRIDGE ex_cfg)) = Some q
             \<longrightarrow> q \<noteq> 0 \<and> ratio p \<noteq> None"
    by (simp add: get_pairs_from_def get_market_ticker_price_from_list_def coin_add_def ex_defs)
  from score [THEN conjunct2, THEN mp, OF h] obtain d where
    d: "get_ratios ex_cfg ex_A 10 ex_tickers [ex_AB] = Inr d"
    by blast
  have m: "ex_AB \<in> set (get_pairs_from [ex_AB] ex_A)"
    by (simp add: get_pairs_from_def ex_defs)
  have q: "get_market_ticker_price_from_list ex_tickers (coin_add (to_coin ex_AB) (BRIDGE ex_cfg)) = Some 5"
    by (simp add: get_market_ticker_price_from_list_def coin_add_def ex_defs)
  from score [THEN conjunct1, rule_format, OF d, THEN conjunct1, rule_format, OF m q]
  obtain r where r: "ratio ex_AB = Some r"
    and e: "(ex_AB, (10 / 5) - SCOUT_TRANSACTION_FEE ex_cfg * SCOUT_MULTIPLIER ex_cfg * (10 / 5) - r) \<in> set d"
    by blast
  from r have "r = 1.5" by (simp add: ex_AB_def)
  with e have "(ex_AB, 0.498) \<in> set d"
    by (simp add: ex_cfg_def)
  with d show ?thesis by blast
qed

text \<open>
  Claim C7. The score mapping that \<^verbatim>\<open>_get_ratios\<close> returns holds no pair whose
  counterpart price is absent from the snapshot.
\<close>

theorem get_ratios_counterpart_priced:
  assumes "get_ratios cfg c cp t ps = Inr d"
  shows "\<forall>(p, v) \<in> set d.
           get_market_ticker_price_from_list t (coin_add (to_coin p) (BRIDGE cfg)) \<noteq> None"
  using ratio_rows_entry [of cfg cp t "get_pairs_from ps c" d] assms
  unfolding get_ratios_def by fastforce

theorem get_ratios_counterpart_priced_witness:
  "get_ratios ex_cfg ex_A 10 ex_tickers [ex_AC, ex_AB] = Inr [(ex_AB, 0.498)]
   \<and> get_market_ticker_price_from_list ex_tickers (coin_add (to_coin ex_AC) (BRIDGE ex_cfg)) = None
   \<and> get_market_ticker_price_from_list ex_tickers (coin_add (to_coin ex_AB) (BRIDGE ex_cfg)) \<noteq> None"
proof -
  have r: "get_ratios ex_cfg ex_A 10 ex_tickers [ex_AC, ex_AB] = Inr [(ex_AB, 0.498)]"
    by (simp add: get_ratios_def get_pairs_from_def get_market_ticker_price_from_list_def coin_add_def
        truediv_def ex_defs ex_AC_def)
  have n: "get_market_ticker_price_from_list ex_tickers (coin_add (to_coin ex_AC) (BRIDGE ex_cfg)) = None"
    by (simp add: get_market_ticker_price_from_list_def coin_add_def ex_defs ex_AC_def)
  have "\<forall>(p, v) \<in> set [(ex_AB, 0.498::real)].
        get_market_ticker_price_from_list ex_tickers (coin_add (to_coin p) (BRIDGE ex_cfg)) \<noteq> None"
    by (rule get_ratios_counterpart_priced [OF r])
  then have p: "get_market_ticker_price_from_list ex_tickers (coin_add (to_coin ex_AB) (BRIDGE ex_cfg)) \<noteq> None"
    by simp
  show ?thesis by (rule conjI [OF r conjI [OF n p]])
qed

subsection \<open>The Bridge Jump Executor\<close>

text \<open>
  Claim C5. Let the sell and the buy of a jump both succeed, the buy at the fill price
  \<open>f\<close>. If \<open>f\<close> is not zero, \<^verbatim>\<open>transaction_through_bridge\<close> returns \<^verbatim>\<open>True\<close>. Whenever
  it returns \<^verbatim>\<open>True\<close>, the table has the same rows with the same endpoints, where every
  pair whose \<open>to\<close> is the bought asset and whose \<open>from\<close> price \<open>p\<close> is in the snapshot
  has the ratio \<open>p / f\<close>, every pair whose \<open>to\<close> is the bought asset and whose
  \<open>from\<close> price is absent is as before, and every pair with another \<open>to\<close> is as before.
\<close>

theorem recalibration_frame:
  assumes sell: "sell_alt M (exch w) (from_coin pr) (BRIDGE cfg) = (Some so, x1)"
      and buy: "buy_alt M x1 (to_coin pr) (BRIDGE cfg) t = (Some bo, x2)"
  shows "(price bo \<noteq> 0 \<longrightarrow> snd (transaction_through_bridge M cfg pr t w) = Inr True)
       \<and> (snd (transaction_through_bridge M cfg pr t w) = Inr True \<longrightarrow>
            length (pairs (fst (transaction_through_bridge M cfg pr t w))) = length (pairs w)
          \<and> (\<forall>i < length (pairs w).
                 from_coin (pairs (fst (transaction_through_bridge M cfg pr t w)) ! i) = from_coin (pairs w ! i)
               \<and> to_coin (pairs (fst (transaction_through_bridge M cfg pr t w)) ! i) = to_coin (pairs w ! i)
               \<and> (symbol (to_coin (pairs w ! i)) = symbol (to_coin pr) \<longrightarrow>
                    (\<forall>p. get_market_ticker_price_from_list t (coin_add (from_coin (pairs w ! i)) (BRIDGE cfg)) = Some p
                          \<longrightarrow> ratio (pairs (fst (transaction_through_bridge M cfg pr t w)) ! i) = Some (p / price bo))
                  \<and> (get_market_ticker_price_from_list t (coin_add (from_coin (pairs w ! i)) (BRIDGE cfg)) = None
                          \<longrightarrow> pairs (fst (transaction_through_bridge M cfg pr t w)) ! i = pairs w ! i))
               \<and> (symbol (to_coin (pairs w ! i)) \<noteq> symbol (to_coin pr) \<longrightarrow>
                    pairs (fst (transaction_through_bridge M cfg pr t w)) ! i = pairs w ! i)))"
proof (intro conjI impI)
  assume "price bo \<noteq> 0"
  then show "snd (transaction_through_bridge M cfg pr t w) = Inr True"
    using sell buy update_trade_threshold_map [of "price bo" cfg "to_coin pr" t "pairs w"]
    by (simp add: transaction_through_bridge_def)
next
  let ?ps = "map (recalibrated cfg (to_coin pr) (price bo) t) (pairs w)"
  assume ok: "snd (transaction_through_bridge M cfg pr t w) = Inr True"
  have run: "pairs (fst (transaction_through_bridge M cfg pr t w)) = ?ps"
  proof (cases "update_rows cfg (to_coin pr) (price bo) t (pairs w)")
    case (Inl e)
    with sell buy ok show ?thesis
      by (simp add: transaction_through_bridge_def update_trade_threshold_def)
  next
    case (Inr ps')
    with sell buy update_rows_Inr [OF Inr] show ?thesis
      by (simp add: transaction_through_bridge_def update_trade_threshold_def)
  qed
  show "length (pairs (fst (transaction_through_bridge M cfg pr t w))) = length (pairs w)"
    by (simp add: run)
  show "\<forall>i < length (pairs w).
                 from_coin (pairs (fst (transaction_through_bridge M cfg pr t w)) ! i) = from_coin (pairs w ! i)
               \<and> to_coin (pairs (fst (transaction_through_bridge M cfg pr t w)) ! i) = to_coin (pairs w ! i)
               \<and> (symbol (to_coin (pairs w ! i)) = symbol (to_coin pr) \<longrightarrow>
                    (\<forall>p. get_market_ticker_price_from_list t (coin_add (from_coin (pairs w ! i)) (BRIDGE cfg)) = Some p
                          \<longrightarrow> ratio (pairs (fst (transaction_through_bridge M cfg pr t w)) ! i) = Some (p / price bo))
                  \<and> (get_market_ticker_price_from_list t (coin_add (from_coin (pairs w ! i)) (BRIDGE cfg)) = None
                          \<longrightarrow> pairs (fst (transaction_through_bridge M cfg pr t w)) ! i = pairs w ! i))
               \<and> (symbol (to_coin (pairs w ! i)) \<noteq> symbol (to_coin pr) \<longrightarrow>
                    pairs (fst (transaction_through_bridge M cfg pr t w)) ! i = pairs w ! i)"
    unfolding run by (simp add: recalibrated_def split: option.splits)
qed

theorem recalibration_frame_witness:
  "snd (transaction_through_bridge (ex_manager (\<lambda>n. ex_tickers) (\<lambda>s. 100) True (Some 4)) ex_cfg ex_AB
           ex_tickers (ex_world [ex_AB, ex_CB, ex_BA] [ex_A, ex_B])) = Inr True
   \<and> ratio (pairs (fst (transaction_through_bridge (ex_manager (\<lambda>n. ex_tickers) (\<lambda>s. 100) True (Some 4))
           ex_cfg ex_AB ex_tickers (ex_world [ex_AB, ex_CB, ex_BA] [ex_A, ex_B]))) ! 0) = Some 2.5
   \<and> pairs (fst (transaction_through_bridge (ex_manager (\<lambda>n. ex_tickers) (\<lambda>s. 100) True (Some 4))
           ex_cfg ex_AB ex_tickers (ex_world [ex_AB, ex_CB, ex_BA] [ex_A, ex_B]))) ! 1 = ex_CB
   \<and> pairs (fst (transaction_through_bridge (ex_manager (\<lambda>n. ex_tickers) (\<lambda>s. 100) True (Some 4))
           ex_cfg ex_AB ex_tickers (ex_world [ex_AB, ex_CB, ex_BA] [ex_A, ex_B]))) ! 2 = ex_BA"
proof -
  let ?M = "ex_manager (\<lambda>n. ex_tickers) (\<lambda>s. 100) True (Some 4)"
  let ?w = "ex_world [ex_AB, ex_CB, ex_BA] [ex_A, ex_B]"
  let ?w' = "fst (transaction_through_bridge ?M ex_cfg ex_AB ex_tickers ?w)"
  have sell: "sell_alt ?M (exch ?w) (from_coin ex_AB) (BRIDGE ex_cfg) = (Some \<lparr>price = 1\<rparr>, 0)"
    by (simp add: ex_manager_def ex_world_def)
  have buy: "buy_alt ?M 0 (to_coin ex_AB) (BRIDGE ex_cfg) ex_tickers = (Some \<lparr>price = 4\<rparr>, 0)"
    by (simp add: ex_manager_def)
  have fill: "price \<lparr>price = 4\<rparr> \<noteq> (0::real)"
    by simp
  note frame = recalibration_frame [OF sell buy]
  from frame [THEN conjunct1, THEN mp, OF fill]
  have run: "snd (transaction_through_bridge ?M ex_cfg ex_AB ex_tickers ?w) = Inr True" .
  note rows = frame [THEN conjunct2, THEN mp, OF run, THEN conjunct2, rule_format]
  have r0: "ratio (pairs ?w' ! 0) = Some 2.5"
    using rows [of 0]
    by (simp add: ex_defs ex_BA_def ex_CB_def get_market_ticker_price_from_list_def coin_add_def)
  have r1: "pairs ?w' ! 1 = ex_CB"
    using rows [of 1]
    by (simp add: ex_defs ex_BA_def ex_CB_def get_market_ticker_price_from_list_def coin_add_def)
  have r2: "pairs ?w' ! 2 = ex_BA"
    using rows [of 2]
    by (simp add: ex_defs ex_BA_def ex_CB_def get_market_ticker_price_from_list_def coin_add_def)
  from run r0 r1 r2 show ?thesis by blast
qed

text \<open>
  Claim C4. If the sell leg fails, \<^verbatim>\<open>transaction_through_bridge\<close> returns \<^verbatim>\<open>False\<close>, the
  table is as before and no buy is attempted. If the sell succeeds and the buy fails, it
  returns \<^verbatim>\<open>False\<close> and the table is as before. If both succeed, the table is the one
  \<^verbatim>\<open>update_trade_threshold\<close> gives for the bought asset and the fill price. It returns
  \<^verbatim>\<open>True\<close> exactly when both legs succeeded and the recalibrated table was stored.
\<close>

theorem transaction_through_bridge_legs:
  "(\<forall>x1. sell_alt M (exch w) (from_coin pr) (BRIDGE cfg) = (None, x1) \<longrightarrow>
        snd (transaction_through_bridge M cfg pr t w) = Inr False
      \<and> pairs (fst (transaction_through_bridge M cfg pr t w)) = pairs w
      \<and> calls (fst (transaction_through_bridge M cfg pr t w)) = calls w @ [Sell (symbol (from_coin pr))])
   \<and> (\<forall>so x1 x2. sell_alt M (exch w) (from_coin pr) (BRIDGE cfg) = (Some so, x1)
          \<and> buy_alt M x1 (to_coin pr) (BRIDGE cfg) t = (None, x2) \<longrightarrow>
        snd (transaction_through_bridge M cfg pr t w) = Inr False
      \<and> pairs (fst (transaction_through_bridge M cfg pr t w)) = pairs w)
   \<and> (\<forall>so x1 bo x2. sell_alt M (exch w) (from_coin pr) (BRIDGE cfg) = (Some so, x1)
          \<and> buy_alt M x1 (to_coin pr) (BRIDGE cfg) t = (Some bo, x2) \<longrightarrow>
        (case update_trade_threshold cfg (to_coin pr) (Some (price bo)) t (pairs w) of
           Inr ps \<Rightarrow> snd (transaction_through_bridge M cfg pr t w) = Inr True
                   \<and> pairs (fst (transaction_through_bridge M cfg pr t w)) = ps
         | Inl e \<Rightarrow> snd (transaction_through_bridge M cfg pr t w) = Inl e
                   \<and> pairs (fst (transaction_through_bridge M cfg pr t w)) = pairs w))
   \<and> (snd (transaction_through_bridge M cfg pr t w) = Inr True \<longleftrightarrow>
        (\<exists>so x1 bo x2 ps. sell_alt M (exch w) (from_coin pr) (BRIDGE cfg) = (Some so, x1)
          \<and> buy_alt M x1 (to_coin pr) (BRIDGE cfg) t = (Some bo, x2)
          \<and> update_trade_threshold cfg (to_coin pr) (Some (price bo)) t (pairs w) = Inr ps
          \<and> pairs (fst (transaction_through_bridge M cfg pr t w)) = ps))"
proof (intro conjI allI impI)
  fix x1 assume "sell_alt M (exch w) (from_coin pr) (BRIDGE cfg) = (None, x1)"
  then have "transaction_through_bridge M cfg pr t w =
      (w\<lparr>exch := x1, calls := calls w @ [Sell (symbol (from_coin pr))]\<rparr>, Inr False)"
    by (simp add: transaction_through_bridge_def)
  then show "snd (transaction_through_bridge M cfg pr t w) = Inr False"
    and "pairs (fst (transaction_through_bridge M cfg pr t w)) = pairs w"
    and "calls (fst (transaction_through_bridge M cfg pr t w)) = calls w @ [Sell (symbol (from_coin pr))]"
    by simp_all
next
  fix so x1 x2
  assume "sell_alt M (exch w) (from_coin pr) (BRIDGE cfg) = (Some so, x1)
          \<and> buy_alt M x1 (to_coin pr) (BRIDGE cfg) t = (None, x2)"
  then have "transaction_through_bridge M cfg pr t w =
      (w\<lparr>exch := x2, calls := calls w @ [Sell (symbol (from_coin pr)), Buy (symbol (to_coin pr))]\<rparr>, Inr False)"
    by (simp add: transaction_through_bridge_def)
  then show "snd (transaction_through_bridge M cfg pr t w) = Inr False"
    and "pairs (fst (transaction_through_bridge M cfg pr t w)) = pairs w"
    by simp_all
next
  fix so x1 bo x2
  assume "sell_alt M (exch w) (from_coin pr) (BRIDGE cfg) = (Some so, x1)
          \<and> buy_alt M x1 (to_coin pr) (BRIDGE cfg) t = (Some bo, x2)"
  then show "case update_trade_threshold cfg (to_coin pr) (Some (price bo)) t (pairs w) of
           Inr ps \<Rightarrow> snd (transaction_through_bridge M cfg pr t w) = Inr True
                   \<and> pairs (fst (transaction_through_bridge M cfg pr t w)) = ps
         | Inl e \<Rightarrow> snd (transaction_through_bridge M cfg pr t w) = Inl e
                   \<and> pairs (fst (transaction_through_bridge M cfg pr t w)) = pairs w"
    by (simp add: transaction_through_bridge_def split: sum.splits)
next
  show "snd (transaction_through_bridge M cfg pr t w) = Inr True \<longleftrightarrow>
        (\<exists>so x1 bo x2 ps. sell_alt M (exch w) (from_coin pr) (BRIDGE cfg) = (Some so, x1)
          \<and> buy_alt M x1 (to_coin pr) (BRIDGE cfg) t = (Some bo, x2)
          \<and> update_trade_threshold cfg (to_coin pr) (Some (price bo)) t (pairs w) = Inr ps
          \<and> pairs (fst (transaction_through_bridge M cfg pr t w)) = ps)"
    by (auto simp: transaction_through_bridge_def Let_def split: prod.splits option.splits sum.splits)
qed

theorem transaction_through_bridge_legs_witness:
  "snd (transaction_through_bridge (ex_manager (\<lambda>n. ex_tickers) (\<lambda>s. 100) False (Some 4)) ex_cfg ex_AB
          ex_tickers (ex_world [ex_AB, ex_CB] [ex_A, ex_B])) = Inr False
   \<and> pairs (fst (transaction_through_bridge (ex_manager (\<lambda>n. ex_tickers) (\<lambda>s. 100) False (Some 4)) ex_cfg ex_AB
          ex_tickers (ex_world [ex_AB, ex_CB] [ex_A, ex_B]))) = [ex_AB, ex_CB]
   \<and> calls (fst (transaction_through_bridge (ex_manager (\<lambda>n. ex_tickers) (\<lambda>s. 100) False (Some 4)) ex_cfg ex_AB
          ex_tickers (ex_world [ex_AB, ex_CB] [ex_A, ex_B]))) = [Sell ''A'']
   \<and> snd (transaction_through_bridge (ex_manager (\<lambda>n. ex_tickers) (\<lambda>s. 100) True None) ex_cfg ex_AB
          ex_tickers (ex_world [ex_AB, ex_CB] [ex_A, ex_B])) = Inr False
   \<and> pairs (fst (transaction_through_bridge (ex_manager (\<lambda>n. ex_tickers) (\<lambda>s. 100) True None) ex_cfg ex_AB
          ex_tickers (ex_world [ex_AB, ex_CB] [ex_A, ex_B]))) = [ex_AB, ex_CB]
   \<and> snd (transaction_through_bridge (ex_manager (\<lambda>n. ex_tickers) (\<lambda>s. 100) True (Some 4)) ex_cfg ex_AB
          ex_tickers (ex_world [ex_AB, ex_CB] [ex_A, ex_B])) = Inr True
   \<and> pairs (fst (transaction_through_bridge (ex_manager (\<lambda>n. ex_tickers) (\<lambda>s. 100) True (Some 4)) ex_cfg ex_AB
          ex_tickers (ex_world [ex_AB, ex_CB] [ex_A, ex_B]))) = [ex_AB\<lparr>ratio := Some 2.5\<rparr>, ex_CB]"
proof -
  let ?w = "ex_world [ex_AB, ex_CB] [ex_A, ex_B]"
  let ?M1 = "ex_manager (\<lambda>n. ex_tickers) (\<lambda>s. 100) False (Some 4)"
  let ?M2 = "ex_manager (\<lambda>n. ex_tickers) (\<lambda>s. 100) True None"
  let ?M3 = "ex_manager (\<lambda>n. ex_tickers) (\<lambda>s. 100) True (Some 4)"
  have s1: "sell_alt ?M1 (exch ?w) (from_coin ex_AB) (BRIDGE ex_cfg) = (None, 0)"
    by (simp add: ex_manager_def ex_world_def)
  have s2: "sell_alt ?M2 (exch ?w) (from_coin ex_AB) (BRIDGE ex_cfg) = (Some \<lparr>price = 1\<rparr>, 0)
            \<and> buy_alt ?M2 0 (to_coin ex_AB) (BRIDGE ex_cfg) ex_tickers = (None, 0)"
    by (simp add: ex_manager_def ex_world_def)
  have s3: "sell_alt ?M3 (exch ?w) (from_coin ex_AB) (BRIDGE ex_cfg) = (Some \<lparr>price = 1\<rparr>, 0)
            \<and> buy_alt ?M3 0 (to_coin ex_AB) (BRIDGE ex_cfg) ex_tickers = (Some \<lparr>price = 4\<rparr>, 0)"
    by (simp add: ex_manager_def ex_world_def)
  have u: "update_trade_threshold ex_cfg (to_coin ex_AB) (Some (price \<lparr>price = 4\<rparr>)) ex_tickers (pairs ?w)
             = Inr [ex_AB\<lparr>ratio := Some 2.5\<rparr>, ex_CB]"
    by (simp add: update_trade_threshold_def truediv_def get_market_ticker_price_from_list_def
        coin_add_def ex_defs ex_CB_def)
  have pw: "pairs ?w = [ex_AB, ex_CB]" "calls ?w = []"
    by (simp_all add: ex_world_def)
  have sym: "symbol (from_coin ex_AB) = ''A''"
    by (simp add: ex_defs ex_CB_def)
  note legs1 = transaction_through_bridge_legs [of ?M1 ?w ex_AB ex_cfg ex_tickers]
  note legs2 = transaction_through_bridge_legs [of ?M2 ?w ex_AB ex_cfg ex_tickers]
  note legs3 = transaction_through_bridge_legs [of ?M3 ?w ex_AB ex_cfg ex_tickers]
  have a: "snd (transaction_through_bridge ?M1 ex_cfg ex_AB ex_tickers ?w) = Inr False
      \<and> pairs (fst (transaction_through_bridge ?M1 ex_cfg ex_AB ex_tickers ?w)) = [ex_AB, ex_CB]
      \<and> calls (fst (transaction_through_bridge ?M1 ex_cfg ex_AB ex_tickers ?w)) = [Sell ''A'']"
    using legs1 [THEN conjunct1, rule_format, OF s1] pw sym by simp
  have b: "snd (transaction_through_bridge ?M2 ex_cfg ex_AB ex_tickers ?w) = Inr False
      \<and> pairs (fst (transaction_through_bridge ?M2 ex_cfg ex_AB ex_tickers ?w)) = [ex_AB, ex_CB]"
    using legs2 [THEN conjunct2, THEN conjunct1, rule_format, OF s2] pw by simp
  have c: "snd (transaction_through_bridge ?M3 ex_cfg ex_AB ex_tickers ?w) = Inr True
      \<and> pairs (fst (transaction_through_bridge ?M3 ex_cfg ex_AB ex_tickers ?w)) = [ex_AB\<lparr>ratio := Some 2.5\<rparr>, ex_CB]"
    using legs3 [THEN conjunct2, THEN conjunct2, THEN conjunct1, rule_format, OF s3] u by simp
  from a b c show ?thesis by simp
qed

subsection \<open>The Threshold Initializer\<close>

text \<open>
  Claim C8. Let a call of \<^verbatim>\<open>initialize_trade_thresholds\<close> fetch the snapshot \<open>t\<close>. If
  \<open>t\<close> holds no zero price, the call returns. Whenever it returns, it has set the ratio of
  exactly the pairs whose ratio was unset, whose two endpoints are enabled and whose two
  endpoint prices are in \<open>t\<close>, to from-price divided by to-price, and has left every
  other row as it was. And a second call that fetches the same snapshot changes no row and
  ends as the first one did.
\<close>

theorem initialize_trade_thresholds_idempotent:
  assumes fetch: "get_all_market_tickers M (exch w) = (t, x1)"
  shows "((\<forall>s. get_market_ticker_price_from_list t s \<noteq> Some 0) \<longrightarrow>
            snd (initialize_trade_thresholds M cfg w) = Inr ())
       \<and> (snd (initialize_trade_thresholds M cfg w) = Inr () \<longrightarrow>
            length (pairs (fst (initialize_trade_thresholds M cfg w))) = length (pairs w)
          \<and> (\<forall>i < length (pairs w).
                 (if ratio (pairs w ! i) = None
                     \<and> enabled (from_coin (pairs w ! i)) \<and> enabled (to_coin (pairs w ! i))
                  then (case (get_market_ticker_price_from_list t (coin_add (from_coin (pairs w ! i)) (BRIDGE cfg)),
                              get_market_ticker_price_from_list t (coin_add (to_coin (pairs w ! i)) (BRIDGE cfg))) of
                          (Some from_price, Some to_price) \<Rightarrow>
                            pairs (fst (initialize_trade_thresholds M cfg w)) ! i
                              = (pairs w ! i)\<lparr>ratio := Some (from_price / to_price)\<rparr>
                        | _ \<Rightarrow> pairs (fst (initialize_trade_thresholds M cfg w)) ! i = pairs w ! i)
                  else pairs (fst (initialize_trade_thresholds M cfg w)) ! i = pairs w ! i)))
       \<and> (fst (get_all_market_tickers M (exch (fst (initialize_trade_thresholds M cfg w)))) = t \<longrightarrow>
            pairs (fst (initialize_trade_thresholds M cfg (fst (initialize_trade_thresholds M cfg w))))
              = pairs (fst (initialize_trade_thresholds M cfg w))
          \<and> snd (initialize_trade_thresholds M cfg (fst (initialize_trade_thresholds M cfg w)))
              = snd (initialize_trade_thresholds M cfg w))"
proof (intro conjI impI)
  assume "\<forall>s. get_market_ticker_price_from_list t s \<noteq> Some 0"
  from initialize_rows_map [OF this, of cfg "pairs w"] fetch
  show "snd (initialize_trade_thresholds M cfg w) = Inr ()"
    by (simp add: initialize_trade_thresholds_def)
next
  assume ok: "snd (initialize_trade_thresholds M cfg w) = Inr ()"
  have run: "pairs (fst (initialize_trade_thresholds M cfg w)) = map (initialized cfg t) (pairs w)"
  proof (cases "initialize_rows cfg t (pairs w)")
    case (Inl e)
    with fetch ok show ?thesis
      by (simp add: initialize_trade_thresholds_def)
  next
    case (Inr ps')
    with fetch initialize_rows_Inr [OF Inr] show ?thesis
      by (simp add: initialize_trade_thresholds_def)
  qed
  show "length (pairs (fst (initialize_trade_thresholds M cfg w))) = length (pairs w)"
    by (simp add: run)
  show "\<forall>i < length (pairs w).
                 (if ratio (pairs w ! i) = None
                     \<and> enabled (from_coin (pairs w ! i)) \<and> enabled (to_coin (pairs w ! i))
                  then (case (get_market_ticker_price_from_list t (coin_add (from_coin (pairs w ! i)) (BRIDGE cfg)),
                              get_market_ticker_price_from_list t (coin_add (to_coin (pairs w ! i)) (BRIDGE cfg))) of
                          (Some from_price, Some to_price) \<Rightarrow>
                            pairs (fst (initialize_trade_thresholds M cfg w)) ! i
                              = (pairs w ! i)\<lparr>ratio := Some (from_price / to_price)\<rparr>
                        | _ \<Rightarrow> pairs (fst (initialize_trade_thresholds M cfg w)) ! i = pairs w ! i)
                  else pairs (fst (initialize_trade_thresholds M cfg w)) ! i = pairs w ! i)"
    unfolding run by (simp add: initialized_def split: option.splits)
next
  let ?w1 = "fst (initialize_trade_thresholds M cfg w)"
  assume same: "fst (get_all_market_tickers M (exch ?w1)) = t"
  obtain t' x2 where f2: "get_all_market_tickers M (exch ?w1) = (t', x2)"
    by (cases "get_all_market_tickers M (exch ?w1)")
  with same have f2': "get_all_market_tickers M (exch ?w1) = (t, x2)" by simp
  have both: "pairs (fst (initialize_trade_thresholds M cfg ?w1)) = pairs ?w1
        \<and> snd (initialize_trade_thresholds M cfg ?w1) = snd (initialize_trade_thresholds M cfg w)"
  proof (cases "initialize_rows cfg t (pairs w)")
    case (Inl e)
    with fetch have w1: "pairs ?w1 = pairs w" "snd (initialize_trade_thresholds M cfg w) = Inl e"
      by (simp_all add: initialize_trade_thresholds_def)
    with Inl f2' show ?thesis
      by (simp add: initialize_trade_thresholds_def [of M cfg ?w1])
  next
    case (Inr ps')
    with initialize_rows_Inr [OF Inr] fetch
    have w1: "pairs ?w1 = map (initialized cfg t) (pairs w)" "snd (initialize_trade_thresholds M cfg w) = Inr ()"
      by (simp_all add: initialize_trade_thresholds_def)
    with f2' initialize_rows_again [of cfg t "pairs w"] show ?thesis
      by (simp add: initialize_trade_thresholds_def [of M cfg ?w1])
  qed
  then show "pairs (fst (initialize_trade_thresholds M cfg ?w1)) = pairs ?w1"
    and "snd (initialize_trade_thresholds M cfg ?w1) = snd (initialize_trade_thresholds M cfg w)"
    by simp_all
qed

theorem initialize_trade_thresholds_idempotent_witness:
  "snd (initialize_trade_thresholds (ex_manager (\<lambda>n. ex_tickers) (\<lambda>s. 100) True (Some 4)) ex_cfg
            (ex_world ex_unset [ex_A, ex_B])) = Inr ()
   \<and> pairs (fst (initialize_trade_thresholds (ex_manager (\<lambda>n. ex_tickers) (\<lambda>s. 100) True (Some 4)) ex_cfg
            (ex_world ex_unset [ex_A, ex_B]))) ! 0 = \<lparr>from_coin = ex_A, to_coin = ex_B, ratio = Some 2\<rparr>
   \<and> pairs (fst (initialize_trade_thresholds (ex_manager (\<lambda>n. ex_tickers) (\<lambda>s. 100) True (Some 4)) ex_cfg
            (ex_world ex_unset [ex_A, ex_B]))) ! 1 = ex_unset ! 1
   \<and> pairs (fst (initialize_trade_thresholds (ex_manager (\<lambda>n. ex_tickers) (\<lambda>s. 100) True (Some 4)) ex_cfg
            (ex_world ex_unset [ex_A, ex_B]))) ! 2 = ex_unset ! 2
   \<and> pairs (fst (initialize_trade_thresholds (ex_manager (\<lambda>n. ex_tickers) (\<lambda>s. 100) True (Some 4)) ex_cfg
            (ex_world ex_unset [ex_A, ex_B]))) ! 3 = ex_unset ! 3
   \<and> pairs (fst (initialize_trade_thresholds (ex_manager (\<lambda>n. ex_tickers) (\<lambda>s. 100) True (Some 4)) ex_cfg
        (fst (initialize_trade_thresholds (ex_manager (\<lambda>n. ex_tickers) (\<lambda>s. 100) True (Some 4)) ex_cfg
            (ex_world ex_unset [ex_A, ex_B])))))
      = pairs (fst (initialize_trade_thresholds (ex_manager (\<lambda>n. ex_tickers) (\<lambda>s. 100) True (Some 4)) ex_cfg
            (ex_world ex_unset [ex_A, ex_B])))"
proof -
  let ?M = "ex_manager (\<lambda>n. ex_tickers) (\<lambda>s. 100) True (Some 4)"
  let ?w = "ex_world ex_unset [ex_A, ex_B]"
  let ?w1 = "fst (initialize_trade_thresholds ?M ex_cfg ?w)"
  have fetch: "get_all_market_tickers ?M (exch ?w) = (ex_tickers, 1)"
    by (simp add: ex_manager_def ex_world_def)
  have nonzero: "\<forall>s. get_market_ticker_price_from_list ex_tickers s \<noteq> Some 0"
    by (simp add: get_market_ticker_price_from_list_def ex_tickers_def)
  have same: "fst (get_all_market_tickers ?M (exch ?w1)) = ex_tickers"
    by (simp add: ex_manager_def)
  note idem = initialize_trade_thresholds_idempotent [OF fetch, of ex_cfg]
  from idem [THEN conjunct1, THEN mp, OF nonzero]
  have run: "snd (initialize_trade_thresholds ?M ex_cfg ?w) = Inr ()" .
  note rows = idem [THEN conjunct2, THEN conjunct1, THEN mp, OF run, THEN conjunct2, rule_format]
  have r0: "pairs ?w1 ! 0 = \<lparr>from_coin = ex_A, to_coin = ex_B, ratio = Some 2\<rparr>"
    using rows [of 0]
    by (simp add: ex_unset_def ex_defs get_market_ticker_price_from_list_def coin_add_def)
  have r1: "pairs ?w1 ! 1 = ex_unset ! 1"
    using rows [of 1]
    by (simp add: ex_unset_def ex_defs get_market_ticker_price_from_list_def coin_add_def)
  have r2: "pairs ?w1 ! 2 = ex_unset ! 2"
    using rows [of 2]
    by (simp add: ex_unset_def ex_defs get_market_ticker_price_from_list_def coin_add_def)
  have r3: "pairs ?w1 ! 3 = ex_unset ! 3"
    using rows [of 3]
    by (simp add: ex_unset_def ex_defs get_market_ticker_price_from_list_def coin_add_def)
  from idem [THEN conjunct2, THEN conjunct2, THEN mp, OF same]
  have again: "pairs (fst (initialize_trade_thresholds ?M ex_cfg ?w1)) = pairs ?w1"
    by blast
  from run r0 r1 r2 r3 again show ?thesis by blast
qed

lemma bridge_loop_calls:
  "calls (fst (bridge_loop M cfg bal t cs w)) = calls w
   \<or> (\<exists>c \<in> set cs. calls (fst (bridge_loop M cfg bal t cs w)) = calls w @ [Buy (symbol c)]
         \<and> get_min_notional M (exch w) (symbol c) (symbol (BRIDGE cfg)) < bal)"
proof (induction cs)
  case Nil
  show ?case by simp
next
  case (Cons c cs)
  then show ?case
    by (auto split: option.splits sum.splits prod.splits)
qed


subsection \<open>The Bridge Rebalance Check\<close>

text \<open>
  Claim C9. In a run of \<^verbatim>\<open>bridge_scout\<close>, no buy of an asset is placed when the bridge
  balance is below that asset's minimum notional: the calls the run adds hold no buy of it.
\<close>

theorem bridge_scout_no_buy_below_min:
  assumes fetch: "get_all_market_tickers M (exch w) = (t, x1)"
      and low: "get_currency_balance M (exch w) (symbol (BRIDGE cfg))
                  < get_min_notional M x1 (symbol c) (symbol (BRIDGE cfg))"
  shows "Buy (symbol c) \<notin> set (drop (length (calls w)) (calls (fst (bridge_scout M cfg w))))"
proof -
  let ?bal = "get_currency_balance M (exch w) (symbol (BRIDGE cfg))"
  let ?w1 = "w\<lparr>exch := x1, calls := calls w @ [Fetch]\<rparr>"
  have run: "bridge_scout M cfg w = bridge_loop M cfg ?bal t (coins w) ?w1"
    using fetch by (simp add: bridge_scout_def get_coins_def)
  have "calls (fst (bridge_loop M cfg ?bal t (coins w) ?w1)) = calls ?w1
     \<or> (\<exists>c' \<in> set (coins w).
           calls (fst (bridge_loop M cfg ?bal t (coins w) ?w1)) = calls ?w1 @ [Buy (symbol c')]
         \<and> get_min_notional M (exch ?w1) (symbol c') (symbol (BRIDGE cfg)) < ?bal)"
    by (rule bridge_loop_calls)
  then show ?thesis
  proof (elim disjE bexE conjE)
    assume "calls (fst (bridge_loop M cfg ?bal t (coins w) ?w1)) = calls ?w1"
    then show ?thesis using run by simp
  next
    fix c' :: coin
    assume bought: "calls (fst (bridge_loop M cfg ?bal t (coins w) ?w1)) = calls ?w1 @ [Buy (symbol c')]"
      and enough: "get_min_notional M (exch ?w1) (symbol c') (symbol (BRIDGE cfg)) < ?bal"
    from enough low have "symbol c' \<noteq> symbol c" by auto
    with bought show ?thesis using run by simp
  qed
qed

theorem bridge_scout_no_buy_below_min_witness:
  "get_currency_balance (ex_manager (\<lambda>n. ex_tickers) (ex_bal 5 0) True (Some 4)) 0 ''USDT''
     < get_min_notional (ex_manager (\<lambda>n. ex_tickers) (ex_bal 5 0) True (Some 4)) 1 ''B'' ''USDT''
   \<and> get_ratios ex_cfg ex_A 10 ex_tickers [ex_AB, ex_BA_high] = Inr [(ex_AB, 0.498)]
   \<and> get_ratios ex_cfg ex_B 5 ex_tickers [ex_AB, ex_BA_high] = Inr [(ex_BA_high, - 0.1005)]
   \<and> Buy ''B'' \<notin> set (calls (fst (bridge_scout (ex_manager (\<lambda>n. ex_tickers) (ex_bal 5 0) True (Some 4)) ex_cfg
                                   (ex_world [ex_AB, ex_BA_high] [ex_A, ex_B]))))"
proof -
  let ?M = "ex_manager (\<lambda>n. ex_tickers) (ex_bal 5 0) True (Some 4)"
  let ?w = "ex_world [ex_AB, ex_BA_high] [ex_A, ex_B]"
  have fetch: "get_all_market_tickers ?M (exch ?w) = (ex_tickers, 1)"
    by (simp add: ex_manager_def ex_world_def)
  have low: "get_currency_balance ?M (exch ?w) (symbol (BRIDGE ex_cfg))
                  < get_min_notional ?M 1 (symbol ex_B) (symbol (BRIDGE ex_cfg))"
    by (simp add: ex_bal_def ex_defs)
  have low': "get_currency_balance ?M 0 ''USDT'' < get_min_notional ?M 1 ''B'' ''USDT''"
    by (simp add: ex_manager_def ex_bal_def)
  have a: "get_ratios ex_cfg ex_A 10 ex_tickers [ex_AB, ex_BA_high] = Inr [(ex_AB, 0.498)]"
    by (simp add: get_ratios_def get_pairs_from_def get_market_ticker_price_from_list_def coin_add_def
        truediv_def ex_defs ex_BA_high_def)
  have b: "get_ratios ex_cfg ex_B 5 ex_tickers [ex_AB, ex_BA_high] = Inr [(ex_BA_high, - 0.1005)]"
    by (simp add: get_ratios_def get_pairs_from_def get_market_ticker_price_from_list_def coin_add_def
        truediv_def ex_defs ex_BA_high_def)
  have "Buy (symbol ex_B) \<notin> set (drop (length (calls ?w)) (calls (fst (bridge_scout ?M ex_cfg ?w))))"
    by (rule bridge_scout_no_buy_below_min [OF fetch low])
  then have c: "Buy ''B'' \<notin> set (calls (fst (bridge_scout ?M ex_cfg ?w)))"
    by (simp add: ex_world_def ex_B_def)
  from low' a b c show ?thesis by blast
qed











subsection \<open>The Scout Controller\<close>





text \<open>
  Claim C3, amended. For every tracked asset the price check comes first: if the price of
  the asset against the bridge is missing from the snapshot, the loop is left at once,
  whatever the balance, and the pass ends without a Bridge Rebalance Check. Otherwise, if
  balance times price is below the minimum notional, the asset is skipped.
\<close>

theorem scout_loop_price_then_notional:
  "(get_market_ticker_price_from_list t (coin_add c (BRIDGE cfg)) = None \<longrightarrow>
      scout_loop M cfg t (c # rest) w = (w, Inr Returned))
   \<and> (\<forall>cp. get_market_ticker_price_from_list t (coin_add c (BRIDGE cfg)) = Some cp
          \<and> cp * get_currency_balance M (exch w) (symbol c)
               < get_min_notional M (exch w) (symbol c) (symbol (BRIDGE cfg)) \<longrightarrow>
      scout_loop M cfg t (c # rest) w = scout_loop M cfg t rest w)
   \<and> (\<forall>x1 w2. get_all_market_tickers M (exch w) = (t, x1)
          \<and> scout_loop M cfg t (get_coins w) (w\<lparr>exch := x1, calls := calls w @ [Fetch]\<rparr>) = (w2, Inr Returned) \<longrightarrow>
      scout M cfg w = (w2, Inr ()))"
  by (simp add: scout_def get_coins_def)

theorem scout_loop_price_then_notional_witness:
  "scout_loop (ex_manager (\<lambda>n. ex_tickers) (ex_bal_only ''C'' 100) True (Some 4)) ex_cfg ex_tickers
     [ex_C, ex_A] (ex_world [ex_AB] [ex_C, ex_A]) = (ex_world [ex_AB] [ex_C, ex_A], Inr Returned)
   \<and> scout_loop (ex_manager (\<lambda>n. ex_tickers) (ex_bal_only ''C'' 100) True (Some 4)) ex_cfg ex_tickers
     [ex_B, ex_C] (ex_world [ex_AB] [ex_C, ex_A])
     = scout_loop (ex_manager (\<lambda>n. ex_tickers) (ex_bal_only ''C'' 100) True (Some 4)) ex_cfg ex_tickers
     [ex_C] (ex_world [ex_AB] [ex_C, ex_A])
   \<and> scout (ex_manager (\<lambda>n. ex_tickers) (ex_bal_only ''C'' 100) True (Some 4)) ex_cfg
        (ex_world [ex_AB] [ex_C, ex_A])
     = ((ex_world [ex_AB] [ex_C, ex_A])\<lparr>exch := 1, calls := [Fetch]\<rparr>, Inr ())"
proof -
  let ?M = "ex_manager (\<lambda>n. ex_tickers) (ex_bal_only ''C'' 100) True (Some 4)"
  let ?w = "ex_world [ex_AB] [ex_C, ex_A]"
  let ?w1 = "?w\<lparr>exch := 1, calls := [Fetch]\<rparr>"
  have missing: "get_market_ticker_price_from_list ex_tickers (coin_add ex_C (BRIDGE ex_cfg)) = None"
    by (simp add: get_market_ticker_price_from_list_def coin_add_def ex_defs)
  have small: "get_market_ticker_price_from_list ex_tickers (coin_add ex_B (BRIDGE ex_cfg)) = Some 5
      \<and> 5 * get_currency_balance ?M (exch ?w) (symbol ex_B)
           < get_min_notional ?M (exch ?w) (symbol ex_B) (symbol (BRIDGE ex_cfg))"
    by (simp add: get_market_ticker_price_from_list_def coin_add_def ex_defs ex_bal_only_def)
  have a: "scout_loop ?M ex_cfg ex_tickers [ex_C, ex_A] ?w = (?w, Inr Returned)"
    using scout_loop_price_then_notional [of ex_tickers ex_C ex_cfg ?M "[ex_A]" ?w, THEN conjunct1] missing
    by blast
  have b: "scout_loop ?M ex_cfg ex_tickers [ex_B, ex_C] ?w = scout_loop ?M ex_cfg ex_tickers [ex_C] ?w"
    using scout_loop_price_then_notional [of ex_tickers ex_B ex_cfg ?M "[ex_C]" ?w, THEN conjunct2, THEN conjunct1] small
    by blast
  have fetch: "get_all_market_tickers ?M (exch ?w) = (ex_tickers, 1)"
    by (simp add: ex_manager_def ex_world_def)
  have "scout_loop ?M ex_cfg ex_tickers [ex_C, ex_A] ?w1 = (?w1, Inr Returned)"
    using scout_loop_price_then_notional [of ex_tickers ex_C ex_cfg ?M "[ex_A]" ?w1, THEN conjunct1] missing
    by blast
  then have loop: "scout_loop ?M ex_cfg ex_tickers (get_coins ?w) (?w\<lparr>exch := 1, calls := calls ?w @ [Fetch]\<rparr>)
      = (?w1, Inr Returned)"
    by (simp add: get_coins_def ex_world_def)
  have c: "scout ?M ex_cfg ?w = (?w1, Inr ())"
    using scout_loop_price_then_notional [of ex_tickers ex_C ex_cfg ?M "[ex_A]" ?w, THEN conjunct2, THEN conjunct2]
      fetch loop by blast
  from a b c show ?thesis by blast
qed

text \<open>
  Claim C3 as stated fails. C has a balance of 0, below every minimum, and no price in
  the snapshot. Skipping C would go on to A and jump from A to B; the pass returns at C
  instead and changes nothing.
\<close>

theorem scout_skip_before_abort_counterexample:
  "get_currency_balance (ex_manager (\<lambda>n. ex_tickers) (ex_bal_only ''A'' 100) True (Some 4)) 0 ''C'' = 0
   \<and> 0 < get_min_notional (ex_manager (\<lambda>n. ex_tickers) (ex_bal_only ''A'' 100) True (Some 4)) 0 ''C'' ''USDT''
   \<and> scout_loop (ex_manager (\<lambda>n. ex_tickers) (ex_bal_only ''A'' 100) True (Some 4)) ex_cfg ex_tickers
        [ex_C, ex_A] (ex_world [ex_AB] [ex_C, ex_A]) = (ex_world [ex_AB] [ex_C, ex_A], Inr Returned)
   \<and> scout_loop (ex_manager (\<lambda>n. ex_tickers) (ex_bal_only ''A'' 100) True (Some 4)) ex_cfg ex_tickers
        [ex_A] (ex_world [ex_AB] [ex_C, ex_A])
       = ((ex_world [ex_AB] [ex_C, ex_A])\<lparr>pairs := [ex_AB\<lparr>ratio := Some 2.5\<rparr>],
                                            calls := [Sell ''A'', Buy ''B'']\<rparr>, Inr Fell_through)"
proof -
  let ?M = "ex_manager (\<lambda>n. ex_tickers) (ex_bal_only ''A'' 100) True (Some 4)"
  let ?w = "ex_world [ex_AB] [ex_C, ex_A]"
  have a: "get_currency_balance ?M 0 ''C'' = 0"
    by (simp add: ex_manager_def ex_bal_only_def)
  have b: "0 < get_min_notional ?M 0 ''C'' ''USDT''"
    by (simp add: ex_manager_def)
  have c: "scout_loop ?M ex_cfg ex_tickers [ex_C, ex_A] ?w = (?w, Inr Returned)"
    by (simp add: ex_eval ex_defs)
  have d: "scout_loop ?M ex_cfg ex_tickers [ex_A] ?w
       = (?w\<lparr>pairs := [ex_AB\<lparr>ratio := Some 2.5\<rparr>], calls := [Sell ''A'', Buy ''B'']\<rparr>, Inr Fell_through)"
    by (simp add: ex_eval ex_defs ex_bal_only_def transaction_through_bridge_def update_trade_threshold_def)
  from a b c d show ?thesis by blast
qed

subsection \<open>The invariant\<close>












end
